theory Spec2Isabelle
  imports Main "HOL-Library.Word"
begin

unbundle bit_operations_syntax

section \<open>mod\_incapsula: data model\<close>

text \<open>
  The development follows \<^verbatim>\<open>src/mod_incapsula.c\<close>, in the branch compiled when
  \<^verbatim>\<open>AP_MODULE_MAGIC_AT_LEAST(20111130,0)\<close> holds (the fields are \<^verbatim>\<open>c->client_addr\<close> and
  \<^verbatim>\<open>c->client_ip\<close>) and \<^verbatim>\<open>REMOTEIP_OPTIMIZED\<close> is not defined.  The other branch differs
  in the field names and in not setting \<^verbatim>\<open>r->useragent_ip\<close> only.
\<close>

subsection \<open>Socket addresses and subnets (APR types)\<close>

text \<open>
  An \<^verbatim>\<open>apr_sockaddr_t\<close> is kept as its family and its address: an IPv4 address is the
  32-bit value whose most significant byte is \<^verbatim>\<open>addrbyte[0]\<close> (network order), an IPv6
  address the 128-bit value whose most significant byte is \<^verbatim>\<open>s6_addr[0]\<close>.
\<close>

datatype apr_sockaddr_t = Inet "32 word" | Inet6 "128 word"

text \<open>An \<^verbatim>\<open>apr_ipsubnet_t\<close>: the subnet's address bits and its mask.\<close>

datatype apr_ipsubnet_t = Subnet4 "32 word" "32 word" | Subnet6 "128 word" "128 word"

text \<open>
  The code compares \<^verbatim>\<open>apr_sockaddr_t *\<close> pointers (\<^verbatim>\<open>c->client_addr == conn->orig_addr\<close>).
  A pointer is therefore a location together with the object found there.  The objects
  the function handles live in three places: the sockaddr the host server filled in when
  it accepted the connection, an object \<^verbatim>\<open>apr_sockaddr_info_get\<close> allocated from the
  request pool, and the buffer \<^verbatim>\<open>conn->proxied_addr\<close> inside the per-connection record.
\<close>

datatype sa_loc = HostSock | ReqPool | ConnProxied

record sa_ptr =
  loc :: sa_loc
  sa :: apr_sockaddr_t

text \<open>
  The APR functions the module calls are not part of the repository; they are taken as
  parameters.  \<^verbatim>\<open>apr_sockaddr_info_get\<close> yields the first address a token resolves to, or
  fails; \<^verbatim>\<open>apr_sockaddr_ip_get\<close> prints an address; \<^verbatim>\<open>apr_ipsubnet_test\<close> tells whether a
  subnet contains an address.
\<close>

record apr =
  apr_sockaddr_info_get :: "string \<Rightarrow> apr_sockaddr_t option"
  apr_sockaddr_ip_get :: "apr_sockaddr_t \<Rightarrow> string"
  apr_ipsubnet_test :: "apr_ipsubnet_t \<Rightarrow> apr_sockaddr_t \<Rightarrow> bool"

subsection \<open>The module's structs\<close>

text \<open>\<^verbatim>\<open>incapsula_proxymatch_t\<close>; \<^verbatim>\<open>void *internal\<close> is kept as "the pointer is not NULL".\<close>

record incapsula_proxymatch_t =
  ip :: apr_ipsubnet_t
  internal :: bool

text \<open>
  \<^verbatim>\<open>incapsula_config_t\<close>.  The three pointer fields may be NULL (\<open>None\<close>);
  \<^verbatim>\<open>proxymatch_ip\<close> is the APR array of entries, in configured order.
\<close>

record incapsula_config_t =
  header_name :: "string option"
  proxies_header_name :: "string option"
  deny_all :: int
  proxymatch_ip :: "incapsula_proxymatch_t list option"

text \<open>
  \<^verbatim>\<open>incapsula_conn_t\<close>.  The record is allocated with \<^verbatim>\<open>apr_palloc\<close>, which does not
  clear memory; \<^verbatim>\<open>orig_ip\<close> and \<^verbatim>\<open>orig_addr\<close> are written at once (lines 450-451), the
  other five fields only by the fix-ups after the loop (lines 478-532), all together.
  \<open>results = None\<close> stands for a record whose five result fields were never written.
\<close>

record conn_results =
  prior_remote :: string
  proxy_ips :: "string option"
  proxied_remote :: "string option"
  proxied_ip :: string
  proxied_addr :: apr_sockaddr_t

record incapsula_conn_t =
  orig_ip :: string
  orig_addr :: sa_ptr
  results :: "conn_results option"

text \<open>The fields of the host's \<^verbatim>\<open>conn_rec\<close> and \<^verbatim>\<open>request_rec\<close> that the module touches.\<close>

record conn_rec =
  client_addr :: sa_ptr
  client_ip :: string
  remote_host :: "string option"
  remote_logname :: "string option"

record request_rec =
  headers_in :: "string \<rightharpoonup> string"
  r_notes :: "string \<rightharpoonup> string"
  useragent_ip :: "string option"
  useragent_addr :: "sa_ptr option"

text \<open>
  What one call of the hook sees and leaves behind: the connection \<^verbatim>\<open>c = r->connection\<close>
  (field \<open>connection\<close>), the record stored
  under the pool key \<^verbatim>\<open>"mod_incapsula-conn"\<close> (\<open>None\<close> when \<^verbatim>\<open>apr_pool_userdata_get\<close> finds
  nothing) and the request \<^verbatim>\<open>r\<close>.  The table \<^verbatim>\<open>r->notes\<close> is the field \<open>r_notes\<close>.
\<close>

record state =
  connection :: conn_rec
  conn :: "incapsula_conn_t option"
  request :: request_rec

text \<open>
  The hook returns an HTTP status, or it reads memory it must not read (an uninitialised
  pointer, or NULL): \<open>Fault\<close>.
\<close>

datatype outcome = Fault | Return int state

definition OK :: int where
  "OK = 0"

section \<open>Configuration\<close>

text \<open>
  \<^verbatim>\<open>merge_incapsula_server_config\<close> (lines 117-135).  The result is allocated with
  \<^verbatim>\<open>apr_palloc\<close>; \<open>fresh\<close> is what that memory holds when it is handed out.  Three
  fields are then assigned.
\<close>

definition merge_incapsula_server_config ::
  "incapsula_config_t \<Rightarrow> incapsula_config_t \<Rightarrow> incapsula_config_t \<Rightarrow> incapsula_config_t" where
  "merge_incapsula_server_config fresh global server =
     fresh\<lparr>header_name :=
             (if header_name server \<noteq> None then header_name server else header_name global),
           proxies_header_name :=
             (if proxies_header_name server \<noteq> None then proxies_header_name server
              else proxies_header_name global),
           proxymatch_ip :=
             (if proxymatch_ip server \<noteq> None then proxymatch_ip server
              else proxymatch_ip global)\<rparr>"

text \<open>\<^verbatim>\<open>deny_all_set\<close> (lines 146-152).\<close>

definition deny_all_set :: "incapsula_config_t \<Rightarrow> incapsula_config_t" where
  "deny_all_set config = config\<lparr>deny_all := 1\<rparr>"

section \<open>The trust table scan\<close>

text \<open>
  The \<^verbatim>\<open>for\<close> loop of lines 332-344 over \<^verbatim>\<open>config->proxymatch_ip->elts\<close>, started at index
  \<open>i\<close>: it stops at the first entry whose subnet contains the address and yields that
  index with the entry's \<^verbatim>\<open>internal\<close>; when no entry matches it runs to \<^verbatim>\<open>nelts\<close> and
  assigns nothing.
\<close>

fun proxymatch_scan ::
  "apr \<Rightarrow> incapsula_proxymatch_t list \<Rightarrow> apr_sockaddr_t \<Rightarrow> nat \<Rightarrow> nat \<times> bool option" where
  "proxymatch_scan A [] a i = (i, None)"
| "proxymatch_scan A (m # ms) a i =
     (if apr_ipsubnet_test A (ip m) a then (i, Some (internal m))
      else proxymatch_scan A ms a (Suc i))"

section \<open>The walk over the header\<close>

text \<open>
  The local variables of \<^verbatim>\<open>incapsula_modify_connection\<close> that the \<^verbatim>\<open>while (remote)\<close> loop
  reads and writes, with the connection and the per-connection record it updates:
  \<^verbatim>\<open>remote\<close> (NULL is \<open>None\<close>), \<^verbatim>\<open>temp_sa\<close> (NULL is \<open>None\<close>), \<^verbatim>\<open>internal\<close>, \<^verbatim>\<open>proxy_ips\<close>,
  \<^verbatim>\<open>c\<close> and \<^verbatim>\<open>conn\<close>.
\<close>

record frame =
  remote :: "string option"
  temp_sa :: "sa_ptr option"
  v_internal :: bool
  v_proxy_ips :: "string option"
  w_c :: conn_rec
  w_conn :: "incapsula_conn_t option"

text \<open>How one pass through the loop body ends: at its end, by \<^verbatim>\<open>break\<close>, or by \<^verbatim>\<open>return 403\<close>.\<close>

datatype step = Continue frame | Break frame | Return403 frame

text \<open>
  Lines 328-352: the scan for \<^verbatim>\<open>c->client_addr\<close>, then the test \<^verbatim>\<open>i && i >= nelts\<close>.
  \<^verbatim>\<open>internal\<close> is assigned only when an entry matches.
\<close>

definition verify_trusted :: "apr \<Rightarrow> incapsula_config_t \<Rightarrow> frame \<Rightarrow> step" where
  "verify_trusted A config f =
     (case proxymatch_ip config of
        None \<Rightarrow> Continue f
      | Some elts \<Rightarrow>
          (case proxymatch_scan A elts (sa (client_addr (w_c f))) 0 of
             (i, m) \<Rightarrow>
               let f1 = (case m of Some b \<Rightarrow> f\<lparr>v_internal := b\<rparr> | None \<Rightarrow> f)
               in if i \<noteq> 0 \<and> length elts \<le> i
                  then (if deny_all config \<noteq> 0 then Return403 f1 else Break f1)
                  else Continue f1))"

text \<open>
  Lines 354-360: \<^verbatim>\<open>strrchr(remote, ',')\<close> and the cut at the comma found: the text before
  the last comma and the text after it, or \<open>None\<close> when there is no comma.
\<close>

definition strrchr_comma :: "string \<Rightarrow> (string \<times> string) option" where
  "strrchr_comma s =
     (if CHR '','' \<in> set s
      then Some (rev (tl (dropWhile (\<lambda>x. x \<noteq> CHR '','') (rev s))),
                 rev (takeWhile (\<lambda>x. x \<noteq> CHR '','') (rev s)))
      else None)"

text \<open>
  Lines 362-367.  Skipping leading spaces only moves \<^verbatim>\<open>parse_remote\<close>: the spaces stay in
  the buffer (\<open>leading_spaces\<close>).  Trailing spaces are overwritten with NUL.
\<close>

definition leading_spaces :: "string \<Rightarrow> string" where
  "leading_spaces s = takeWhile (\<lambda>x. x = CHR '' '') s"

definition skip_spaces :: "string \<Rightarrow> string" where
  "skip_spaces s = dropWhile (\<lambda>x. x = CHR '' '') s"

definition cut_trailing_spaces :: "string \<Rightarrow> string" where
  "cut_trailing_spaces s = rev (dropWhile (\<lambda>x. x = CHR '' '') (rev s))"

text \<open>
  Lines 354-367 together: the new \<^verbatim>\<open>remote\<close>, the spaces left in the buffer in front of
  \<^verbatim>\<open>parse_remote\<close>, and the string \<^verbatim>\<open>parse_remote\<close> points to after trimming.
\<close>

definition next_token :: "string \<Rightarrow> string option \<times> string \<times> string" where
  "next_token s =
     (case strrchr_comma s of
        None \<Rightarrow> (None, leading_spaces s, cut_trailing_spaces (skip_spaces s))
      | Some (p, q) \<Rightarrow> (Some p, leading_spaces q, cut_trailing_spaces (skip_spaces q)))"

text \<open>
  Lines 370-373, 404-407 and 439-442: \<^verbatim>\<open>if (remote) *(remote + strlen(remote)) = ',';
  else remote = parse_remote;\<close>.  Writing the comma back joins \<^verbatim>\<open>remote\<close> with what the
  buffer holds behind it: the skipped spaces and the trimmed token.
\<close>

definition put_back :: "string option \<Rightarrow> string \<Rightarrow> string \<Rightarrow> string option" where
  "put_back rem lead tok =
     (case rem of Some p \<Rightarrow> Some (p @ '','' @ lead @ tok) | None \<Rightarrow> Some tok)"

text \<open>Lines 411-434: the test on the parsed address, without the \<^verbatim>\<open>!internal\<close> conjunct.\<close>

definition addrbyte :: "32 word \<Rightarrow> nat \<Rightarrow> 8 word" where
  "addrbyte a k = ucast (drop_bit (24 - 8 * k) a)"

definition private_or_nonsensical :: "apr_sockaddr_t \<Rightarrow> bool" where
  "private_or_nonsensical t =
     (case t of
        Inet a \<Rightarrow>
          addrbyte a 0 = 10
          \<or> addrbyte a 0 = 127
          \<or> (addrbyte a 0 = 169 \<and> addrbyte a 1 = 254)
          \<or> (addrbyte a 0 = 172 \<and> (addrbyte a 1 AND 0xf0) = 16)
          \<or> (addrbyte a 0 = 192 \<and> addrbyte a 1 = 168)
      | Inet6 a \<Rightarrow> ((ucast (drop_bit 120 a) :: 8 word) AND 0xe0) \<noteq> 0x20)"

text \<open>
  Lines 447-463: the per-connection record is created when there is none, the vouching
  peer's \<^verbatim>\<open>c->client_ip\<close> is appended to \<^verbatim>\<open>proxy_ips\<close> unless \<^verbatim>\<open>internal\<close> is set, and the
  connection takes the parsed address \<open>p\<close> (the new \<^verbatim>\<open>temp_sa\<close>).
\<close>

definition promote :: "apr \<Rightarrow> frame \<Rightarrow> sa_ptr \<Rightarrow> frame" where
  "promote A f p =
     f\<lparr>w_conn :=
         (case w_conn f of
            None \<Rightarrow> Some \<lparr>orig_ip = client_ip (w_c f), orig_addr = client_addr (w_c f),
                         results = None\<rparr>
          | Some cn \<Rightarrow> Some cn),
       v_proxy_ips :=
         (if \<not> v_internal f
          then (case v_proxy_ips f of
                  Some l \<Rightarrow> Some (l @ '', '' @ client_ip (w_c f))
                | None \<Rightarrow> Some (client_ip (w_c f)))
          else v_proxy_ips f),
       w_c := (w_c f)\<lparr>client_addr := p, client_ip := apr_sockaddr_ip_get A (sa p)\<rparr>\<rparr>"

text \<open>
  The loop body, lines 326-463, entered with \<^verbatim>\<open>remote\<close> pointing to \<open>s\<close>.
  \<^verbatim>\<open>apr_sockaddr_info_get\<close> stores its result through \<^verbatim>\<open>&temp_sa\<close>: a new object of the
  request pool, or NULL when it fails.
\<close>

definition loop_body :: "apr \<Rightarrow> incapsula_config_t \<Rightarrow> frame \<Rightarrow> string \<Rightarrow> step" where
  "loop_body A config f s =
     (case verify_trusted A config f of
        Return403 f1 \<Rightarrow> Return403 f1
      | Break f1 \<Rightarrow> Break f1
      | Continue f1 \<Rightarrow>
          (case next_token s of
             (rem, lead, tok) \<Rightarrow>
               if tok = [] then Break (f1\<lparr>remote := put_back rem lead tok\<rparr>)
               else
                 (case apr_sockaddr_info_get A tok of
                    None \<Rightarrow> Break (f1\<lparr>remote := put_back rem lead tok, temp_sa := None\<rparr>)
                  | Some a \<Rightarrow>
                      if \<not> v_internal f1 \<and> private_or_nonsensical a
                      then Break (f1\<lparr>remote := put_back rem lead tok,
                                      temp_sa := Some \<lparr>loc = ReqPool, sa = a\<rparr>\<rparr>)
                      else Continue
                             (promote A
                                (f1\<lparr>remote := rem, temp_sa := Some \<lparr>loc = ReqPool, sa = a\<rparr>\<rparr>)
                                \<lparr>loc = ReqPool, sa = a\<rparr>))))"

text \<open>How the loop is left: past its end (or by \<^verbatim>\<open>break\<close>), or by \<^verbatim>\<open>return 403\<close>.\<close>

datatype loop_exit = Leave frame | Deny frame

definition remote_size :: "frame \<Rightarrow> nat" where
  "remote_size f = (case remote f of None \<Rightarrow> 0 | Some s \<Rightarrow> Suc (length s))"

lemma strrchr_comma_shorter: "strrchr_comma s = Some (p, q) \<Longrightarrow> length p < length s"
proof -
  assume h: "strrchr_comma s = Some (p, q)"
  let ?d = "dropWhile (\<lambda>x. x \<noteq> CHR '','') (rev s)"
  from h have m: "CHR '','' \<in> set s" and p: "p = rev (tl ?d)"
    by (simp_all add: strrchr_comma_def split: if_splits)
  from m have "?d \<noteq> []"
    by simp
  then have "length (tl ?d) < length ?d"
    by simp
  moreover have "length ?d \<le> length (rev s)"
    by (rule length_dropWhile_le)
  ultimately show ?thesis using p by simp
qed

lemma promote_remote: "remote (promote A f p) = remote f"
  by (simp add: promote_def)

lemma loop_body_Continue_remote:
  assumes "loop_body A config f s = Continue f'"
  shows "remote f' = fst (next_token s)"
proof (cases "verify_trusted A config f")
  case (Continue f1)
  obtain rem lead tok where nt: "next_token s = (rem, lead, tok)"
    by (cases "next_token s") auto
  from assms Continue nt show ?thesis
    by (auto simp: loop_body_def promote_remote split: if_splits option.splits)
next
  case (Break f1) with assms show ?thesis by (simp add: loop_body_def)
next
  case (Return403 f1) with assms show ?thesis by (simp add: loop_body_def)
qed

lemma next_token_shorter:
  "fst (next_token s) = Some p \<Longrightarrow> length p < length s"
  by (auto simp: next_token_def dest: strrchr_comma_shorter split: option.splits prod.splits)

lemma loop_body_decreases:
  assumes "remote f = Some s" and "loop_body A config f s = Continue f'"
  shows "remote_size f' < remote_size f"
proof (cases "remote f'")
  case None
  with assms show ?thesis by (simp add: remote_size_def)
next
  case (Some p)
  with assms(2) have "fst (next_token s) = Some p"
    by (simp add: loop_body_Continue_remote)
  then have "length p < length s" by (rule next_token_shorter)
  with Some assms(1) show ?thesis by (simp add: remote_size_def)
qed

text \<open>The loop \<^verbatim>\<open>while (remote) { ... }\<close>, lines 324-464.\<close>

function walk :: "apr \<Rightarrow> incapsula_config_t \<Rightarrow> frame \<Rightarrow> loop_exit" where
  "walk A config f =
     (case remote f of
        None \<Rightarrow> Leave f
      | Some s \<Rightarrow>
          (case loop_body A config f s of
             Continue f' \<Rightarrow> walk A config f'
           | Break f' \<Rightarrow> Leave f'
           | Return403 f' \<Rightarrow> Deny f'))"
  by pat_completeness auto
termination
  by (relation "measure (\<lambda>(A, config, f). remote_size f)") (auto dest: loop_body_decreases)

declare walk.simps [simp del]

section \<open>The hook\<close>

text \<open>\<^verbatim>\<open>apr_table_get\<close> with a key that can be NULL.\<close>

definition apr_table_get :: "(string \<rightharpoonup> string) \<Rightarrow> string option \<Rightarrow> string option" where
  "apr_table_get t key = (case key of None \<Rightarrow> None | Some k \<Rightarrow> t k)"

text \<open>Lines 281-282: the connection gets its original address back.\<close>

definition revert :: "state \<Rightarrow> incapsula_conn_t \<Rightarrow> state" where
  "revert st cn =
     st\<lparr>connection := (connection st)\<lparr>client_addr := orig_addr cn, client_ip := orig_ip cn\<rparr>\<rparr>"

text \<open>
  Lines 538-552, the label \<^verbatim>\<open>ditto_request_rec\<close>: the note and the republished header are
  set when \<^verbatim>\<open>conn->proxy_ips\<close> is not NULL.
\<close>

definition ditto_request_rec :: "incapsula_config_t \<Rightarrow> state \<Rightarrow> conn_results \<Rightarrow> outcome" where
  "ditto_request_rec config st res =
     Return OK
       (case proxy_ips res of
          None \<Rightarrow> st
        | Some l \<Rightarrow>
            st\<lparr>request :=
                 (case proxies_header_name config of
                    None \<Rightarrow> (request st)\<lparr>r_notes := (r_notes (request st))(''incapsula-proxy-ip-list'' \<mapsto> l)\<rparr>
                  | Some n \<Rightarrow>
                      (request st)\<lparr>r_notes := (r_notes (request st))(''incapsula-proxy-ip-list'' \<mapsto> l),
                                   headers_in := (headers_in (request st))(n \<mapsto> l)\<rparr>)\<rparr>)"

text \<open>
  Lines 477-536, reached with the per-connection record \<open>cn\<close> and the header value \<open>h\<close>.
  \<^verbatim>\<open>memcpy(&conn->proxied_addr, temp_sa, ...)\<close> reads through \<^verbatim>\<open>temp_sa\<close>, and the
  connection's address becomes \<^verbatim>\<open>&conn->proxied_addr\<close>.
\<close>

definition fixups :: "incapsula_config_t \<Rightarrow> state \<Rightarrow> frame \<Rightarrow> incapsula_conn_t \<Rightarrow> string \<Rightarrow> outcome" where
  "fixups config st f cn h =
     (case temp_sa f of
        None \<Rightarrow> Fault
      | Some t \<Rightarrow>
          let res = \<lparr>prior_remote = h, proxy_ips = v_proxy_ips f, proxied_remote = remote f,
                     proxied_ip = client_ip (w_c f), proxied_addr = sa t\<rparr>
          in ditto_request_rec config
               \<lparr>connection = (w_c f)\<lparr>client_addr := \<lparr>loc = ConnProxied, sa = sa t\<rparr>,
                                     remote_host := None, remote_logname := None\<rparr>,
                conn = Some (cn\<lparr>results := Some res\<rparr>),
                request = (request st)\<lparr>useragent_ip := Some (client_ip (w_c f)),
                                       useragent_addr := Some (client_addr (w_c f))\<rparr>\<rparr>
               res)"

text \<open>
  Lines 294-536: what the function does once it has not jumped to \<^verbatim>\<open>ditto_request_rec\<close>.
  \<open>hdr\<close> is \<^verbatim>\<open>remote\<close> as read from the request.  The pointer comparison
  \<^verbatim>\<open>c->client_addr == conn->orig_addr\<close> compares locations.
\<close>

definition walk_start :: "state \<Rightarrow> string \<Rightarrow> frame" where
  "walk_start st h =
     \<lparr>remote = Some h, temp_sa = Some (client_addr (connection st)), v_internal = False,
      v_proxy_ips = None, w_c = connection st, w_conn = conn st\<rparr>"

definition resolve :: "apr \<Rightarrow> incapsula_config_t \<Rightarrow> state \<Rightarrow> string option \<Rightarrow> outcome" where
  "resolve A config st hdr =
     (case hdr of
        None \<Rightarrow> (if deny_all config \<noteq> 0 then Return 403 st else Return OK st)
      | Some h \<Rightarrow>
          (case walk A config (walk_start st h) of
             Deny f \<Rightarrow> Return 403 (st\<lparr>connection := w_c f, conn := w_conn f\<rparr>)
           | Leave f \<Rightarrow>
               (case w_conn f of
                  None \<Rightarrow> Return OK (st\<lparr>connection := w_c f, conn := w_conn f\<rparr>)
                | Some cn \<Rightarrow>
                    if loc (client_addr (w_c f)) = loc (orig_addr cn)
                    then Return OK (st\<lparr>connection := w_c f, conn := w_conn f\<rparr>)
                    else fixups config st f cn h)))"

text \<open>
  \<^verbatim>\<open>incapsula_modify_connection\<close>, lines 248-553.  With a per-connection record present and a
  header in the request, \<^verbatim>\<open>strcmp(remote, conn->prior_remote)\<close> reads \<^verbatim>\<open>conn->prior_remote\<close>.
\<close>

definition incapsula_modify_connection :: "apr \<Rightarrow> incapsula_config_t \<Rightarrow> state \<Rightarrow> outcome" where
  "incapsula_modify_connection A config st =
     (let hdr = apr_table_get (headers_in (request st)) (header_name config)
      in case conn st of
           None \<Rightarrow> resolve A config st hdr
         | Some cn \<Rightarrow>
             (case hdr of
                None \<Rightarrow> resolve A config (revert st cn) hdr
              | Some h \<Rightarrow>
                  (case results cn of
                     None \<Rightarrow> Fault
                   | Some res \<Rightarrow>
                       if h = prior_remote res then ditto_request_rec config st res
                       else resolve A config (revert st cn) hdr)))"

section \<open>Notions the properties are stated with\<close>


text \<open>
  \<open>visits A config f0 f\<close>: the loop entered with the variables \<open>f0\<close> comes to the head of
  the loop with the variables \<open>f\<close>, after some number of complete passes through the body.
\<close>

inductive visits :: "apr \<Rightarrow> incapsula_config_t \<Rightarrow> frame \<Rightarrow> frame \<Rightarrow> bool"
  for A :: apr and config :: incapsula_config_t and f0 :: frame where
  start: "visits A config f0 f0"
| pass: "visits A config f0 f \<Longrightarrow> remote f = Some s \<Longrightarrow> loop_body A config f s = Continue f'
         \<Longrightarrow> visits A config f0 f'"

text \<open>
  Requests served one after the other on one kept-alive connection: each request comes
  with its own \<^verbatim>\<open>request_rec\<close>; the connection and what is stored in its pool are those
  the previous request left.  Nothing follows a \<open>Fault\<close>.
\<close>

fun on_connection ::
  "apr \<Rightarrow> incapsula_config_t \<Rightarrow> conn_rec \<Rightarrow> incapsula_conn_t option \<Rightarrow> request_rec list
   \<Rightarrow> outcome list" where
  "on_connection A config cr cn [] = []"
| "on_connection A config cr cn (rq # rqs) =
     (case incapsula_modify_connection A config \<lparr>connection = cr, conn = cn, request = rq\<rparr> of
        Fault \<Rightarrow> [Fault]
      | Return n st \<Rightarrow> Return n st # on_connection A config (connection st) (conn st) rqs)"

section \<open>The default configuration\<close>

definition IC_DEFAULT_IP_HEADER :: string where
  "IC_DEFAULT_IP_HEADER = ''Incap-Client-IP''"

definition ipv4 :: "nat \<Rightarrow> nat \<Rightarrow> nat \<Rightarrow> nat \<Rightarrow> 32 word" where
  "ipv4 b0 b1 b2 b3 = word_of_nat (((b0 * 256 + b1) * 256 + b2) * 256 + b3)"

definition netmask :: "nat \<Rightarrow> 32 word" where
  "netmask n = NOT (mask (32 - n))"

text \<open>
  The entry \<^verbatim>\<open>set_ic_default_proxies\<close> pushes for the string \<^verbatim>\<open>"b0.b1.b2.b3/n"\<close>: the subnet
  \<^verbatim>\<open>apr_ipsubnet_create\<close> builds from the address and the prefix length, and \<^verbatim>\<open>internal\<close>
  left NULL, as \<^verbatim>\<open>apr_array_push\<close> hands out cleared elements.
\<close>

definition default_proxy :: "nat \<Rightarrow> nat \<Rightarrow> nat \<Rightarrow> nat \<Rightarrow> nat \<Rightarrow> incapsula_proxymatch_t" where
  "default_proxy b0 b1 b2 b3 n =
     \<lparr>ip = Subnet4 (ipv4 b0 b1 b2 b3 AND netmask n) (netmask n), internal = False\<rparr>"

text \<open>\<^verbatim>\<open>IC_DEFAULT_TRUSTED_PROXY\<close> (lines 45-54), as the table \<^verbatim>\<open>set_ic_default_proxies\<close> makes of it.\<close>

definition IC_DEFAULT_TRUSTED_PROXY :: "incapsula_proxymatch_t list" where
  "IC_DEFAULT_TRUSTED_PROXY =
     [default_proxy 199 83 128 0 21,
      default_proxy 198 143 32 0 19,
      default_proxy 149 126 72 0 21,
      default_proxy 103 28 248 0 22,
      default_proxy 45 64 64 0 22,
      default_proxy 185 11 124 0 22,
      default_proxy 192 230 64 0 18]"

text \<open>\<^verbatim>\<open>create_incapsula_server_config\<close> (lines 101-115); the record comes from \<^verbatim>\<open>apr_pcalloc\<close>.\<close>

definition create_incapsula_server_config :: incapsula_config_t where
  "create_incapsula_server_config =
     \<lparr>header_name = Some IC_DEFAULT_IP_HEADER, proxies_header_name = None, deny_all = 0,
      proxymatch_ip = Some IC_DEFAULT_TRUSTED_PROXY\<rparr>"

text \<open>
  The default configuration with one more trusted proxy pushed behind the defaults, as
  \<^verbatim>\<open>proxies_set\<close> does (lines 205-208): the subnet 10.0.0.0/8, with \<^verbatim>\<open>internal\<close> set.
\<close>

definition with_internal_proxy :: incapsula_config_t where
  "with_internal_proxy =
     create_incapsula_server_config
       \<lparr>proxymatch_ip :=
          Some (IC_DEFAULT_TRUSTED_PROXY
                @ [\<lparr>ip = Subnet4 (ipv4 10 0 0 0) (netmask 8), internal = True\<rparr>])\<rparr>"

section \<open>APR on numeric IPv4 input\<close>

text \<open>
  An instance of the APR parameters for running the code on concrete requests.  It covers
  numeric IPv4 only: a token resolves exactly when it is a dotted quad of decimal numbers
  below 256, an address prints as a dotted quad, and a subnet contains an address when
  the masked address equals the subnet's bits.
\<close>

definition digit_value :: "char \<Rightarrow> nat option" where
  "digit_value x =
     (if 48 \<le> (of_char x :: nat) \<and> (of_char x :: nat) \<le> 57 then Some (of_char x - 48) else None)"

fun decimal_value :: "string \<Rightarrow> nat \<Rightarrow> nat option" where
  "decimal_value [] n = Some n"
| "decimal_value (x # xs) n =
     (case digit_value x of None \<Rightarrow> None | Some d \<Rightarrow> decimal_value xs (10 * n + d))"

fun split_dots :: "string \<Rightarrow> string list" where
  "split_dots [] = [[]]"
| "split_dots (x # xs) =
     (if x = CHR ''.'' then [] # split_dots xs
      else (case split_dots xs of [] \<Rightarrow> [[x]] | y # ys \<Rightarrow> (x # y) # ys))"

definition octet :: "string \<Rightarrow> nat option" where
  "octet s =
     (if s = [] then None
      else (case decimal_value s 0 of
              None \<Rightarrow> None
            | Some n \<Rightarrow> if n < 256 then Some n else None))"

definition numeric_info_get :: "string \<Rightarrow> apr_sockaddr_t option" where
  "numeric_info_get s =
     (case map octet (split_dots s) of
        [Some b0, Some b1, Some b2, Some b3] \<Rightarrow> Some (Inet (ipv4 b0 b1 b2 b3))
      | _ \<Rightarrow> None)"

definition digit_char :: "nat \<Rightarrow> char" where
  "digit_char d = ''0123456789'' ! (d mod 10)"

fun decimal_string :: "nat \<Rightarrow> string" where
  "decimal_string n =
     (if n < 10 then [digit_char n] else decimal_string (n div 10) @ [digit_char (n mod 10)])"

declare decimal_string.simps [simp del]

definition numeric_ip_get :: "apr_sockaddr_t \<Rightarrow> string" where
  "numeric_ip_get t =
     (case t of
        Inet a \<Rightarrow>
          decimal_string (unat (addrbyte a 0)) @ ''.'' @ decimal_string (unat (addrbyte a 1))
          @ ''.'' @ decimal_string (unat (addrbyte a 2)) @ ''.'' @ decimal_string (unat (addrbyte a 3))
      | Inet6 a \<Rightarrow> ''::'')"

definition numeric_subnet_test :: "apr_ipsubnet_t \<Rightarrow> apr_sockaddr_t \<Rightarrow> bool" where
  "numeric_subnet_test n t =
     (case (n, t) of
        (Subnet4 sub msk, Inet a) \<Rightarrow> a AND msk = sub
      | (Subnet6 sub msk, Inet6 a) \<Rightarrow> a AND msk = sub
      | _ \<Rightarrow> False)"

definition apr_numeric :: apr where
  "apr_numeric =
     \<lparr>apr_sockaddr_info_get = numeric_info_get, apr_sockaddr_ip_get = numeric_ip_get,
      apr_ipsubnet_test = numeric_subnet_test\<rparr>"

text \<open>
  A connection as the host hands it to the first request: the peer's address in the
  host's sockaddr, no per-connection record yet.  A request that carries the header
  \<open>name\<close> with value \<open>v\<close>, and one without headers.
\<close>

definition accepted :: "32 word \<Rightarrow> conn_rec" where
  "accepted a =
     \<lparr>client_addr = \<lparr>loc = HostSock, sa = Inet a\<rparr>, client_ip = numeric_ip_get (Inet a),
      remote_host = None, remote_logname = None\<rparr>"

definition request_with :: "string \<Rightarrow> string \<Rightarrow> request_rec" where
  "request_with name v =
     \<lparr>headers_in = [name \<mapsto> v], r_notes = Map.empty, useragent_ip = None,
      useragent_addr = None\<rparr>"

definition request_without :: request_rec where
  "request_without =
     \<lparr>headers_in = Map.empty, r_notes = Map.empty, useragent_ip = None, useragent_addr = None\<rparr>"

text \<open>
  What the first request of the spec's scenario 1 leaves on a connection accepted from
  199.83.128.5 (header value \<^verbatim>\<open>"203.0.113.9"\<close>, default configuration): the connection and
  the per-connection record.
\<close>

definition proxied_connection :: conn_rec where
  "proxied_connection =
     \<lparr>client_addr = \<lparr>loc = ConnProxied, sa = Inet (ipv4 203 0 113 9)\<rparr>,
      client_ip = ''203.0.113.9'', remote_host = None, remote_logname = None\<rparr>"

definition cached :: incapsula_conn_t where
  "cached =
     \<lparr>orig_ip = ''199.83.128.5'', orig_addr = \<lparr>loc = HostSock, sa = Inet (ipv4 199 83 128 5)\<rparr>,
      results = Some \<lparr>prior_remote = ''203.0.113.9'', proxy_ips = Some ''199.83.128.5'',
                      proxied_remote = None, proxied_ip = ''203.0.113.9'',
                      proxied_addr = Inet (ipv4 203 0 113 9)\<rparr>\<rparr>"

section \<open>Evaluating the definitions on concrete input\<close>

lemmas evaluation =
  apr_numeric_def IC_DEFAULT_TRUSTED_PROXY_def default_proxy_def numeric_subnet_test_def
  ipv4_def netmask_def mask_eq_exp_minus_1 numeric_info_get_def octet_def digit_value_def
  numeric_ip_get_def addrbyte_def drop_bit_eq_div decimal_string.simps digit_char_def
  private_or_nonsensical_def next_token_def strrchr_comma_def leading_spaces_def
  skip_spaces_def cut_trailing_spaces_def put_back_def promote_def verify_trusted_def
  loop_body_def create_incapsula_server_config_def accepted_def request_with_def
  request_without_def walk_start_def IC_DEFAULT_IP_HEADER_def deny_all_set_def
  with_internal_proxy_def

lemmas hook = incapsula_modify_connection_def resolve_def fixups_def ditto_request_rec_def
  revert_def apr_table_get_def walk.simps OK_def

section \<open>The trust table scan: theorems\<close>

lemma proxymatch_scan_find:
  "proxymatch_scan A tbl a i =
     (case find (\<lambda>m. apr_ipsubnet_test A (ip m) a) tbl of
        None \<Rightarrow> (i + length tbl, None)
      | Some m \<Rightarrow>
          (i + length (takeWhile (\<lambda>m. \<not> apr_ipsubnet_test A (ip m) a) tbl), Some (internal m)))"
  by (induction tbl arbitrary: i) (auto split: option.splits)

lemma proxymatch_scan_None:
  "(snd (proxymatch_scan A tbl a i) = None) = (\<forall>m\<in>set tbl. \<not> apr_ipsubnet_test A (ip m) a)"
  by (induction tbl arbitrary: i) auto

lemma proxymatch_scan_fst_None:
  "snd (proxymatch_scan A tbl a i) = None \<Longrightarrow> fst (proxymatch_scan A tbl a i) = i + length tbl"
  by (induction tbl arbitrary: i) (auto split: if_splits)

lemma proxymatch_scan_fst_Some:
  "snd (proxymatch_scan A tbl a i) = Some b \<Longrightarrow> fst (proxymatch_scan A tbl a i) < i + length tbl"
proof (induction tbl arbitrary: i)
  case Nil
  then show ?case by simp
next
  case (Cons m ms)
  show ?case
  proof (cases "apr_ipsubnet_test A (ip m) a")
    case True
    then show ?thesis by simp
  next
    case False
    with Cons.prems have "snd (proxymatch_scan A ms a (Suc i)) = Some b" by simp
    from Cons.IH [OF this] False show ?thesis by simp
  qed
qed

text \<open>
  C8.  For every address and every trust table, the scan of the table yields the
  \<^verbatim>\<open>internal\<close> flag of the first entry, in configured order, whose subnet contains the
  address, together with that entry's index; it yields nothing and runs to the end of the
  table exactly when no entry's subnet contains the address.  The table is an argument of
  the scan only: nothing is written to it.
\<close>

theorem trust_table_match_first_entry:
  "proxymatch_scan A tbl a 0 =
     (case find (\<lambda>m. apr_ipsubnet_test A (ip m) a) tbl of
        None \<Rightarrow> (length tbl, None)
      | Some m \<Rightarrow>
          (length (takeWhile (\<lambda>m. \<not> apr_ipsubnet_test A (ip m) a) tbl), Some (internal m)))
   \<and> ((snd (proxymatch_scan A tbl a 0) = None) = (\<forall>m\<in>set tbl. \<not> apr_ipsubnet_test A (ip m) a))
   \<and> ((fst (proxymatch_scan A tbl a 0) = length tbl) = (\<forall>m\<in>set tbl. \<not> apr_ipsubnet_test A (ip m) a))"
proof -
  have a: "(fst (proxymatch_scan A tbl a 0) = length tbl) = (snd (proxymatch_scan A tbl a 0) = None)"
  proof (cases "snd (proxymatch_scan A tbl a 0)")
    case None
    then show ?thesis using proxymatch_scan_fst_None [of A tbl a 0] by simp
  next
    case (Some b)
    then show ?thesis using proxymatch_scan_fst_Some [of A tbl a 0 b] by simp
  qed
  show ?thesis
    using proxymatch_scan_find [of A tbl a 0] proxymatch_scan_None [of A tbl a 0] a
    by (simp split: option.splits)
qed

theorem trust_table_match_first_entry_witness:
  "find (\<lambda>m. apr_ipsubnet_test apr_numeric (ip m) (Inet (ipv4 8 8 8 8))) IC_DEFAULT_TRUSTED_PROXY = None
   \<and> proxymatch_scan apr_numeric IC_DEFAULT_TRUSTED_PROXY (Inet (ipv4 8 8 8 8)) 0 = (7, None)
   \<and> proxymatch_scan apr_numeric IC_DEFAULT_TRUSTED_PROXY (Inet (ipv4 198 143 32 1)) 0
       = (1, Some False)"
  using trust_table_match_first_entry [of apr_numeric IC_DEFAULT_TRUSTED_PROXY "Inet (ipv4 8 8 8 8)"]
    trust_table_match_first_entry [of apr_numeric IC_DEFAULT_TRUSTED_PROXY "Inet (ipv4 198 143 32 1)"]
  by (simp add: evaluation)

section \<open>Configuration: theorems\<close>

text \<open>
  C9.  Merging a virtual-host configuration with the global one never copies
  \<^verbatim>\<open>deny_all\<close> from either input: the merged record's \<^verbatim>\<open>deny_all\<close> is whatever the freshly
  allocated memory held, while \<^verbatim>\<open>header_name\<close>, \<^verbatim>\<open>proxies_header_name\<close> and
  \<^verbatim>\<open>proxymatch_ip\<close> are taken from the server's record when set there and from the global
  one otherwise.  In particular a policy switched on by \<^verbatim>\<open>deny_all_set\<close> on either side
  does not reach the merged configuration.
\<close>

theorem merge_leaves_deny_all_unset:
  "deny_all (merge_incapsula_server_config fresh global server) = deny_all fresh
   \<and> merge_incapsula_server_config fresh (deny_all_set global) (deny_all_set server)
       = merge_incapsula_server_config fresh global server
   \<and> header_name (merge_incapsula_server_config fresh global server)
       = (case header_name server of Some h \<Rightarrow> Some h | None \<Rightarrow> header_name global)
   \<and> proxies_header_name (merge_incapsula_server_config fresh global server)
       = (case proxies_header_name server of Some h \<Rightarrow> Some h
          | None \<Rightarrow> proxies_header_name global)
   \<and> proxymatch_ip (merge_incapsula_server_config fresh global server)
       = (case proxymatch_ip server of Some t \<Rightarrow> Some t | None \<Rightarrow> proxymatch_ip global)"
  by (simp add: merge_incapsula_server_config_def deny_all_set_def split: option.splits)

section \<open>A request without the header\<close>

text \<open>
  C1, as stated, fails: with the deny-all policy set, a request without the header is
  answered 403 although its physical peer, 199.83.128.5, is matched by the trust table
  (by an entry that is not flagged internal).
\<close>

theorem absent_header_counterexample:
  "snd (proxymatch_scan apr_numeric IC_DEFAULT_TRUSTED_PROXY (Inet (ipv4 199 83 128 5)) 0) = Some False
   \<and> apr_table_get (headers_in request_without)
        (header_name (deny_all_set create_incapsula_server_config)) = None
   \<and> incapsula_modify_connection apr_numeric (deny_all_set create_incapsula_server_config)
        \<lparr>connection = accepted (ipv4 199 83 128 5), conn = None, request = request_without\<rparr>
       = Return 403 \<lparr>connection = accepted (ipv4 199 83 128 5), conn = None, request = request_without\<rparr>"
  by (simp add: incapsula_modify_connection_def resolve_def apr_table_get_def evaluation)

text \<open>
  C1, amended.  For every request whose trust header is absent: when the deny-all policy
  is set the hook answers 403, whatever the trust table says about the physical peer;
  when it is not set the hook answers OK.  In both cases the connection carries the
  physical peer's address (put back from the per-connection record when there is one),
  the per-connection record and the request are left as they were, and no hop is
  consumed.
\<close>

theorem absent_header:
  assumes "apr_table_get (headers_in (request st)) (header_name config) = None"
  shows "incapsula_modify_connection A config st =
           Return (if deny_all config \<noteq> 0 then 403 else OK)
             (case conn st of None \<Rightarrow> st | Some cn \<Rightarrow> revert st cn)"
  using assms
  by (simp add: incapsula_modify_connection_def resolve_def split: option.splits)

theorem absent_header_witness:
  "apr_table_get (headers_in request_without) (header_name create_incapsula_server_config) = None
   \<and> incapsula_modify_connection apr_numeric create_incapsula_server_config
        \<lparr>connection = accepted (ipv4 199 83 128 5), conn = None, request = request_without\<rparr>
       = Return OK \<lparr>connection = accepted (ipv4 199 83 128 5), conn = None, request = request_without\<rparr>"
  using absent_header [of "\<lparr>connection = accepted (ipv4 199 83 128 5), conn = None, request = request_without\<rparr>"
      create_incapsula_server_config apr_numeric]
  by (simp add: apr_table_get_def create_incapsula_server_config_def request_without_def)

section \<open>A token that trims to empty\<close>

lemma not_blank:
  assumes "\<not> x = CHR '' ''"
  shows "dropWhile (\<lambda>x. x = CHR '' '') (rev (x # xs)) \<noteq> []"
proof
  assume "dropWhile (\<lambda>x. x = CHR '' '') (rev (x # xs)) = []"
  then have "\<forall>y\<in>set (rev (x # xs)). y = CHR '' ''"
    by (simp only: dropWhile_eq_Nil_conv)
  then have "x = CHR '' ''" by simp
  with assms show False by simp
qed

lemma blank_token:
  assumes "cut_trailing_spaces (skip_spaces q) = []"
  shows "leading_spaces q = q"
proof (cases "dropWhile (\<lambda>x. x = CHR '' '') q")
  case Nil
  have "takeWhile (\<lambda>x. x = CHR '' '') q @ dropWhile (\<lambda>x. x = CHR '' '') q = q"
    by (rule takeWhile_dropWhile_id)
  with Nil show ?thesis by (simp add: leading_spaces_def)
next
  case (Cons x xs)
  then have "dropWhile (\<lambda>x. x = CHR '' '') q \<noteq> []" by simp
  then have "\<not> hd (dropWhile (\<lambda>x. x = CHR '' '') q) = CHR '' ''" by (rule hd_dropWhile)
  with Cons have "\<not> x = CHR '' ''" by simp
  then have "dropWhile (\<lambda>x. x = CHR '' '') (rev (x # xs)) \<noteq> []" by (rule not_blank)
  moreover from assms Cons have "dropWhile (\<lambda>x. x = CHR '' '') (rev (x # xs)) = []"
    unfolding cut_trailing_spaces_def skip_spaces_def by (simp only: rev_is_Nil_conv)
  ultimately show ?thesis by simp
qed


lemma strrchr_comma_restore:
  assumes "strrchr_comma s = Some (p, q)"
  shows "p @ CHR '','' # q = s"
proof -
  let ?P = "\<lambda>x. x \<noteq> CHR '',''"
  let ?d = "dropWhile ?P (rev s)"
  from assms have m: "CHR '','' \<in> set s" and p: "p = rev (tl ?d)" and q: "q = rev (takeWhile ?P (rev s))"
    by (simp_all add: strrchr_comma_def split: if_splits)
  from m have ne: "?d \<noteq> []" by simp
  then have "\<not> ?P (hd ?d)" by (rule hd_dropWhile)
  then have "hd ?d = CHR '',''" by simp
  with ne have d: "?d = CHR '','' # tl ?d" by (cases ?d) auto
  have "rev s = takeWhile ?P (rev s) @ ?d" by simp
  then have "rev s = takeWhile ?P (rev s) @ CHR '','' # tl ?d" using d by simp
  then have "rev (rev s) = rev (takeWhile ?P (rev s) @ CHR '','' # tl ?d)" by (rule arg_cong)
  then show ?thesis using p q by simp
qed

lemma loop_body_blank:
  assumes "verify_trusted A config f = Continue f1"
    and "next_token s = (rem, lead, [])"
  shows "loop_body A config f s = Break (f1\<lparr>remote := put_back rem lead []\<rparr>)"
  using assms by (simp add: loop_body_def)

text \<open>
  C7, amended.  When the rightmost token of the remaining header text trims to empty and
  the current peer has passed the trust check, the walk stops.  If the remaining text
  contains a comma it is put back as it was, blank fragment included; if it contains no
  comma (the blank token is all that remains) \<^verbatim>\<open>remote\<close> becomes the empty string, and
  the spaces are dropped.
\<close>

theorem blank_token_stops_walk:
  assumes trusted: "verify_trusted A config f = Continue f1"
    and blank: "snd (snd (next_token s)) = []"
  shows "loop_body A config f s = Break (f1\<lparr>remote := Some (if CHR '','' \<in> set s then s else [])\<rparr>)"
proof (cases "strrchr_comma s")
  case None
  then have c: "CHR '','' \<notin> set s" by (simp add: strrchr_comma_def split: if_splits)
  from None blank have "next_token s = (None, leading_spaces s, [])"
    by (simp add: next_token_def)
  from loop_body_blank [OF trusted this] c show ?thesis
    by (simp add: put_back_def)
next
  case (Some pq)
  obtain p q where pq: "pq = (p, q)" by (cases pq) auto
  with Some have c: "CHR '','' \<in> set s" by (simp add: strrchr_comma_def split: if_splits)
  from Some pq blank have b: "cut_trailing_spaces (skip_spaces q) = []"
    by (simp add: next_token_def)
  with Some pq have n: "next_token s = (Some p, leading_spaces q, [])"
    by (simp add: next_token_def)
  from Some pq have r: "p @ CHR '','' # q = s" by (simp add: strrchr_comma_restore)
  have "put_back (Some p) (leading_spaces q) [] = Some (p @ CHR '','' # q)"
    using blank_token [OF b] by (simp add: put_back_def)
  with r c loop_body_blank [OF trusted n] show ?thesis by simp
qed


theorem blank_token_stops_walk_witness:
  "verify_trusted apr_numeric create_incapsula_server_config
     (walk_start \<lparr>connection = accepted (ipv4 199 83 128 5), conn = None,
                  request = request_with IC_DEFAULT_IP_HEADER ''203.0.113.9,  ''\<rparr> ''203.0.113.9,  '')
     = Continue (walk_start \<lparr>connection = accepted (ipv4 199 83 128 5), conn = None,
                  request = request_with IC_DEFAULT_IP_HEADER ''203.0.113.9,  ''\<rparr> ''203.0.113.9,  '')
   \<and> snd (snd (next_token ''203.0.113.9,  '')) = []
   \<and> loop_body apr_numeric create_incapsula_server_config
        (walk_start \<lparr>connection = accepted (ipv4 199 83 128 5), conn = None,
                  request = request_with IC_DEFAULT_IP_HEADER ''203.0.113.9,  ''\<rparr> ''203.0.113.9,  '')
        ''203.0.113.9,  ''
     = Break (walk_start \<lparr>connection = accepted (ipv4 199 83 128 5), conn = None,
                  request = request_with IC_DEFAULT_IP_HEADER ''203.0.113.9,  ''\<rparr> ''203.0.113.9,  '')"
proof -
  let ?f = "walk_start \<lparr>connection = accepted (ipv4 199 83 128 5), conn = None,
                  request = request_with IC_DEFAULT_IP_HEADER ''203.0.113.9,  ''\<rparr> ''203.0.113.9,  ''"
  have t: "verify_trusted apr_numeric create_incapsula_server_config ?f = Continue ?f"
    by (simp add: evaluation)
  have b: "snd (snd (next_token ''203.0.113.9,  '')) = []"
    by (simp add: evaluation)
  from blank_token_stops_walk [OF t b] t b show ?thesis
    by (simp add: walk_start_def)
qed

text \<open>
  C7, as stated, fails: a remaining header text of two spaces is not restored; the walk
  ends with \<^verbatim>\<open>remote\<close> pointing to the empty string.
\<close>

theorem blank_token_counterexample:
  "walk apr_numeric create_incapsula_server_config
     (walk_start \<lparr>connection = accepted (ipv4 199 83 128 5), conn = None,
                  request = request_with IC_DEFAULT_IP_HEADER ''  ''\<rparr> ''  '')
   = Leave ((walk_start \<lparr>connection = accepted (ipv4 199 83 128 5), conn = None,
                  request = request_with IC_DEFAULT_IP_HEADER ''  ''\<rparr> ''  '')\<lparr>remote := Some []\<rparr>)
   \<and> Some [] \<noteq> Some ''  ''"
  by (simp add: walk.simps evaluation)

section \<open>A private address claimed through an external proxy\<close>

lemma verify_trusted_matched:
  assumes "proxymatch_ip config = Some elts"
    and "snd (proxymatch_scan A elts (sa (client_addr (w_c f))) 0) = Some b"
  shows "verify_trusted A config f = Continue (f\<lparr>v_internal := b\<rparr>)"
proof -
  obtain i m where im: "proxymatch_scan A elts (sa (client_addr (w_c f))) 0 = (i, m)"
    by (cases "proxymatch_scan A elts (sa (client_addr (w_c f))) 0") auto
  with assms(2) have m: "m = Some b" by simp
  from proxymatch_scan_fst_Some [OF assms(2)] im have "i < length elts" by simp
  with assms(1) im m show ?thesis by (simp add: verify_trusted_def)
qed

lemma token_10_1_2_3: "next_token ''10.1.2.3'' = (None, [], ''10.1.2.3'')"
  by (simp add: evaluation)

lemma private_10_1_2_3: "private_or_nonsensical (Inet (ipv4 10 1 2 3))"
  by (simp add: evaluation)

text \<open>
  C4.  A first request on a connection whose physical peer is matched by an entry of the
  trust table that is not flagged internal, with the header value \<^verbatim>\<open>"10.1.2.3"\<close>: the
  walk is left on the first hop with the connection untouched (the client address is
  still the physical peer), no proxy address collected and \<^verbatim>\<open>remote\<close> pointing to the
  rejected token \<^verbatim>\<open>"10.1.2.3"\<close>; the hook answers OK and changes nothing.  In the spec's
  scenario the peer is 198.143.32.1.
\<close>

theorem private_token_halts_first_hop:
  assumes parse: "apr_sockaddr_info_get A ''10.1.2.3'' = Some (Inet (ipv4 10 1 2 3))"
    and table: "proxymatch_ip config = Some elts"
    and external: "snd (proxymatch_scan A elts (sa (client_addr (connection st))) 0) = Some False"
    and header: "apr_table_get (headers_in (request st)) (header_name config) = Some ''10.1.2.3''"
    and fresh: "conn st = None"
  shows "walk A config (walk_start st ''10.1.2.3'') =
           Leave \<lparr>remote = Some ''10.1.2.3'',
                  temp_sa = Some \<lparr>loc = ReqPool, sa = Inet (ipv4 10 1 2 3)\<rparr>,
                  v_internal = False, v_proxy_ips = None, w_c = connection st, w_conn = None\<rparr>
         \<and> incapsula_modify_connection A config st = Return OK st"
proof -
  let ?f = "walk_start st ''10.1.2.3''"
  have f: "?f\<lparr>v_internal := False\<rparr> = ?f" by (simp add: walk_start_def)
  from external have "snd (proxymatch_scan A elts (sa (client_addr (w_c ?f))) 0) = Some False"
    by (simp add: walk_start_def)
  from verify_trusted_matched [OF table this] f
  have v: "verify_trusted A config ?f = Continue ?f" by simp
  have b: "loop_body A config ?f ''10.1.2.3'' =
             Break (?f\<lparr>remote := Some ''10.1.2.3'',
                        temp_sa := Some \<lparr>loc = ReqPool, sa = Inet (ipv4 10 1 2 3)\<rparr>\<rparr>)"
    using v parse private_10_1_2_3 token_10_1_2_3
    by (simp add: loop_body_def put_back_def walk_start_def)
  have r: "remote ?f = Some ''10.1.2.3''" by (simp add: walk_start_def)
  have w: "walk A config ?f =
             Leave (?f\<lparr>remote := Some ''10.1.2.3'',
                        temp_sa := Some \<lparr>loc = ReqPool, sa = Inet (ipv4 10 1 2 3)\<rparr>\<rparr>)"
    by (subst walk.simps) (simp add: r b)
  have w': "walk A config ?f =
           Leave \<lparr>remote = Some ''10.1.2.3'',
                  temp_sa = Some \<lparr>loc = ReqPool, sa = Inet (ipv4 10 1 2 3)\<rparr>,
                  v_internal = False, v_proxy_ips = None, w_c = connection st, w_conn = None\<rparr>"
    using w fresh by (simp add: walk_start_def)
  have "incapsula_modify_connection A config st = Return OK st"
    using header fresh w' by (simp add: incapsula_modify_connection_def resolve_def)
  with w' show ?thesis by simp
qed

theorem private_token_halts_first_hop_witness:
  "apr_sockaddr_info_get apr_numeric ''10.1.2.3'' = Some (Inet (ipv4 10 1 2 3))
   \<and> snd (proxymatch_scan apr_numeric IC_DEFAULT_TRUSTED_PROXY (Inet (ipv4 198 143 32 1)) 0) = Some False
   \<and> walk apr_numeric create_incapsula_server_config
        (walk_start \<lparr>connection = accepted (ipv4 198 143 32 1), conn = None,
                     request = request_with IC_DEFAULT_IP_HEADER ''10.1.2.3''\<rparr> ''10.1.2.3'')
       = Leave \<lparr>remote = Some ''10.1.2.3'',
                temp_sa = Some \<lparr>loc = ReqPool, sa = Inet (ipv4 10 1 2 3)\<rparr>,
                v_internal = False, v_proxy_ips = None,
                w_c = \<lparr>client_addr = \<lparr>loc = HostSock, sa = Inet (ipv4 198 143 32 1)\<rparr>,
                       client_ip = ''198.143.32.1'', remote_host = None, remote_logname = None\<rparr>,
                w_conn = None\<rparr>
   \<and> incapsula_modify_connection apr_numeric create_incapsula_server_config
        \<lparr>connection = accepted (ipv4 198 143 32 1), conn = None,
         request = request_with IC_DEFAULT_IP_HEADER ''10.1.2.3''\<rparr>
       = Return OK \<lparr>connection = accepted (ipv4 198 143 32 1), conn = None,
                    request = request_with IC_DEFAULT_IP_HEADER ''10.1.2.3''\<rparr>"
proof -
  let ?st = "\<lparr>connection = accepted (ipv4 198 143 32 1), conn = None,
              request = request_with IC_DEFAULT_IP_HEADER ''10.1.2.3''\<rparr>"
  have p: "apr_sockaddr_info_get apr_numeric ''10.1.2.3'' = Some (Inet (ipv4 10 1 2 3))"
    by (simp add: evaluation)
  have t: "proxymatch_ip create_incapsula_server_config = Some IC_DEFAULT_TRUSTED_PROXY"
    by (simp add: create_incapsula_server_config_def)
  have e: "snd (proxymatch_scan apr_numeric IC_DEFAULT_TRUSTED_PROXY
             (sa (client_addr (connection ?st))) 0) = Some False"
    by (simp add: evaluation)
  have h: "apr_table_get (headers_in (request ?st)) (header_name create_incapsula_server_config)
             = Some ''10.1.2.3''"
    by (simp add: apr_table_get_def evaluation)
  have c: "conn ?st = None" by simp
  have ip: "numeric_ip_get (Inet (ipv4 198 143 32 1)) = ''198.143.32.1''"
    by (simp add: evaluation)
  from private_token_halts_first_hop [OF p t e h c] p e ip show ?thesis
    by (simp add: accepted_def)
qed

section \<open>The deny-all policy on a later hop\<close>

text \<open>
  C2.  The code on a request from the trusted peer 199.83.128.5 with the header value
  \<^verbatim>\<open>"1.2.3.4, 203.0.113.9"\<close>.  The physical peer matches the first entry of the table; the
  first pass promotes 203.0.113.9, which no entry matches.  With the deny-all policy the
  second pass returns 403, the connection already rewritten and the per-connection record
  created but not filled in; without the policy the walk stops there and the hook answers
  OK.
\<close>

theorem later_hop_forbidden:
  "fst (proxymatch_scan apr_numeric IC_DEFAULT_TRUSTED_PROXY (Inet (ipv4 199 83 128 5)) 0) = 0
   \<and> incapsula_modify_connection apr_numeric (deny_all_set create_incapsula_server_config)
        \<lparr>connection = accepted (ipv4 199 83 128 5), conn = None,
         request = request_with IC_DEFAULT_IP_HEADER ''1.2.3.4, 203.0.113.9''\<rparr>
       = Return 403
           \<lparr>connection =
              \<lparr>client_addr = \<lparr>loc = ReqPool, sa = Inet (ipv4 203 0 113 9)\<rparr>,
               client_ip = ''203.0.113.9'', remote_host = None, remote_logname = None\<rparr>,
            conn = Some \<lparr>orig_ip = ''199.83.128.5'',
                         orig_addr = \<lparr>loc = HostSock, sa = Inet (ipv4 199 83 128 5)\<rparr>,
                         results = None\<rparr>,
            request = request_with IC_DEFAULT_IP_HEADER ''1.2.3.4, 203.0.113.9''\<rparr>
   \<and> incapsula_modify_connection apr_numeric create_incapsula_server_config
        \<lparr>connection = accepted (ipv4 199 83 128 5), conn = None,
         request = request_with IC_DEFAULT_IP_HEADER ''1.2.3.4, 203.0.113.9''\<rparr>
       = Return OK
           \<lparr>connection = proxied_connection,
            conn = Some (cached\<lparr>results :=
                     Some \<lparr>prior_remote = ''1.2.3.4, 203.0.113.9'', proxy_ips = Some ''199.83.128.5'',
                           proxied_remote = Some ''1.2.3.4'', proxied_ip = ''203.0.113.9'',
                           proxied_addr = Inet (ipv4 203 0 113 9)\<rparr>\<rparr>),
            request = (request_with IC_DEFAULT_IP_HEADER ''1.2.3.4, 203.0.113.9'')
              \<lparr>r_notes := [''incapsula-proxy-ip-list'' \<mapsto> ''199.83.128.5''],
               useragent_ip := Some ''203.0.113.9'',
               useragent_addr := Some \<lparr>loc = ReqPool, sa = Inet (ipv4 203 0 113 9)\<rparr>\<rparr>\<rparr>"
  by (simp add: hook evaluation proxied_connection_def cached_def)

section \<open>The per-connection record across requests\<close>

lemma scenario1:
  "incapsula_modify_connection apr_numeric create_incapsula_server_config
     \<lparr>connection = accepted (ipv4 199 83 128 5), conn = None,
      request = request_with IC_DEFAULT_IP_HEADER ''203.0.113.9''\<rparr>
   = Return OK
       \<lparr>connection = proxied_connection, conn = Some cached,
        request = (request_with IC_DEFAULT_IP_HEADER ''203.0.113.9'')
          \<lparr>r_notes := [''incapsula-proxy-ip-list'' \<mapsto> ''199.83.128.5''],
           useragent_ip := Some ''203.0.113.9'',
           useragent_addr := Some \<lparr>loc = ReqPool, sa = Inet (ipv4 203 0 113 9)\<rparr>\<rparr>\<rparr>"
  by (simp add: hook evaluation proxied_connection_def cached_def)

text \<open>
  C3.  The code on three requests on one connection accepted from 199.83.128.5: the
  header value \<^verbatim>\<open>"203.0.113.9"\<close>, then no header, then \<^verbatim>\<open>"203.0.113.9"\<close> again.  The
  second request puts the original address back and returns at once; the per-connection
  record keeps the first request's results and header value.  The third request finds its
  header value equal to the recorded one and goes to \<^verbatim>\<open>ditto_request_rec\<close>: the connection
  keeps the physical peer's address, and the proxy list recorded by the first request is
  published.
\<close>

theorem stale_cache_after_absent_header:
  "on_connection apr_numeric create_incapsula_server_config (accepted (ipv4 199 83 128 5)) None
     [request_with IC_DEFAULT_IP_HEADER ''203.0.113.9'', request_without,
      request_with IC_DEFAULT_IP_HEADER ''203.0.113.9'']
   = [Return OK
        \<lparr>connection = proxied_connection, conn = Some cached,
         request = (request_with IC_DEFAULT_IP_HEADER ''203.0.113.9'')
           \<lparr>r_notes := [''incapsula-proxy-ip-list'' \<mapsto> ''199.83.128.5''],
            useragent_ip := Some ''203.0.113.9'',
            useragent_addr := Some \<lparr>loc = ReqPool, sa = Inet (ipv4 203 0 113 9)\<rparr>\<rparr>\<rparr>,
      Return OK
        \<lparr>connection = accepted (ipv4 199 83 128 5), conn = Some cached,
         request = request_without\<rparr>,
      Return OK
        \<lparr>connection = accepted (ipv4 199 83 128 5), conn = Some cached,
         request = (request_with IC_DEFAULT_IP_HEADER ''203.0.113.9'')
           \<lparr>r_notes := [''incapsula-proxy-ip-list'' \<mapsto> ''199.83.128.5'']\<rparr>\<rparr>]"
  by (simp add: hook evaluation proxied_connection_def cached_def)

text \<open>
  C5.  When a request has left a per-connection record and the next request on the
  connection carries the header value recorded there, the hook answers OK and leaves the
  connection and the per-connection record exactly as the first request left them (client
  address, proxy list and remaining header text included); it publishes the recorded
  proxy list.  Nothing is computed again: the outcome is the same whatever the APR
  functions would answer (\<open>A'\<close>).
\<close>

theorem repeat_served_from_cache:
  assumes first: "incapsula_modify_connection A config st = Return n st1"
    and cached: "conn st1 = Some cn" "results cn = Some res"
    and same: "apr_table_get (headers_in rq) (header_name config) = Some (prior_remote res)"
  shows "\<exists>st2. incapsula_modify_connection A' config (st1\<lparr>request := rq\<rparr>) = Return OK st2
           \<and> connection st2 = connection st1 \<and> conn st2 = conn st1
           \<and> r_notes (request st2) =
               (case proxy_ips res of None \<Rightarrow> r_notes rq
                | Some l \<Rightarrow> (r_notes rq)(''incapsula-proxy-ip-list'' \<mapsto> l))"
  using cached same
  by (simp add: incapsula_modify_connection_def ditto_request_rec_def split: option.splits)

theorem repeat_served_from_cache_witness:
  "incapsula_modify_connection apr_numeric create_incapsula_server_config
     \<lparr>connection = accepted (ipv4 199 83 128 5), conn = None,
      request = request_with IC_DEFAULT_IP_HEADER ''203.0.113.9''\<rparr>
   = Return OK
       \<lparr>connection = proxied_connection, conn = Some cached,
        request = (request_with IC_DEFAULT_IP_HEADER ''203.0.113.9'')
          \<lparr>r_notes := [''incapsula-proxy-ip-list'' \<mapsto> ''199.83.128.5''],
           useragent_ip := Some ''203.0.113.9'',
           useragent_addr := Some \<lparr>loc = ReqPool, sa = Inet (ipv4 203 0 113 9)\<rparr>\<rparr>\<rparr>
   \<and> apr_table_get (headers_in (request_with IC_DEFAULT_IP_HEADER ''203.0.113.9''))
        (header_name create_incapsula_server_config) = Some ''203.0.113.9''
   \<and> (\<exists>st2. incapsula_modify_connection apr_numeric create_incapsula_server_config
               \<lparr>connection = proxied_connection, conn = Some cached,
                request = request_with IC_DEFAULT_IP_HEADER ''203.0.113.9''\<rparr> = Return OK st2
             \<and> connection st2 = proxied_connection \<and> conn st2 = Some cached
             \<and> r_notes (request st2) = [''incapsula-proxy-ip-list'' \<mapsto> ''199.83.128.5''])"
proof -
  let ?rq = "request_with IC_DEFAULT_IP_HEADER ''203.0.113.9''"
  let ?res = "\<lparr>prior_remote = ''203.0.113.9'', proxy_ips = Some ''199.83.128.5'',
               proxied_remote = None, proxied_ip = ''203.0.113.9'',
               proxied_addr = Inet (ipv4 203 0 113 9)\<rparr>"
  let ?st1 = "\<lparr>connection = proxied_connection, conn = Some cached,
        request = ?rq
          \<lparr>r_notes := [''incapsula-proxy-ip-list'' \<mapsto> ''199.83.128.5''],
           useragent_ip := Some ''203.0.113.9'',
           useragent_addr := Some \<lparr>loc = ReqPool, sa = Inet (ipv4 203 0 113 9)\<rparr>\<rparr>\<rparr>"
  have c1: "conn ?st1 = Some cached" by simp
  have c2: "results cached = Some ?res" by (simp add: cached_def)
  have h: "apr_table_get (headers_in ?rq) (header_name create_incapsula_server_config)
             = Some (prior_remote ?res)"
    by (simp add: apr_table_get_def evaluation)
  from repeat_served_from_cache [OF scenario1 c1 c2 h, of apr_numeric] scenario1 h
  show ?thesis by (simp add: request_with_def)
qed

section \<open>The list of proxy addresses\<close>











section \<open>Hops accepted on the word of internal proxies only\<close>


end
